theory Spec2Isabelle
  imports Main "HOL-Library.Word"
begin

unbundle bit_operations_syntax

section \<open>Bit stream\<close>

text \<open>
  \<^verbatim>\<open>tsz.go\<close> writes and reads its blocks through the packages \<^verbatim>\<open>go-bitstream\<close> and
  \<^verbatim>\<open>go-bits\<close>, which it imports and which are not among the sources. Their operations are
  modelled here from section 4.1 and section 4.3 of the specification.
\<close>

type_synonym byte = "8 word"

datatype error = UnexpectedEnd

text \<open>
  Modelled from the spec: the bit writer of \<^verbatim>\<open>go-bitstream\<close> (missing from the sources).
  The writer is the list of all bits appended so far, oldest first. The byte buffer behind
  it holds the completed bytes only (see \<open>Bytes\<close> below); the bits of a pending partial byte
  are the last \<open>length w mod 8\<close> elements. Widths are Go \<^verbatim>\<open>int\<close>s; the specification
  gives widths 1..64, and a width of 0 or less appends nothing here.
\<close>

type_synonym BitWriter = "bool list"

definition bits_of :: "'a::len word \<Rightarrow> nat \<Rightarrow> bool list" where
  \<comment> \<open>the low \<open>n\<close> bits, most significant first\<close>
  "bits_of u n = map (bit u) (rev [0..<n])"

definition WriteBit :: "bool \<Rightarrow> BitWriter \<Rightarrow> BitWriter" where
  "WriteBit b w = w @ [b]"

definition WriteBits :: "64 word \<Rightarrow> int \<Rightarrow> BitWriter \<Rightarrow> BitWriter" where
  "WriteBits u nbits w = w @ bits_of u (nat nbits)"

definition Flush :: "bool \<Rightarrow> BitWriter \<Rightarrow> BitWriter" where
  "Flush pad w = w @ replicate ((8 - length w mod 8) mod 8) pad"

text \<open>
  Modelled from the spec: the bit reader of \<^verbatim>\<open>go-bitstream\<close> (missing from the sources).
  The reader is the list of bits not yet consumed. A read that needs more bits than are
  left fails with \<open>UnexpectedEnd\<close>. The position of the reader after a failed read is
  never observed through \<open>Iter\<close>, whose \<open>Next\<close> returns at its guard from then on; the
  model keeps the position that the last successful read of \<open>Next\<close> left.
\<close>

type_synonym BitReader = "bool list"

definition word_of_bits :: "bool list \<Rightarrow> 'a::len word" where
  \<comment> \<open>most significant bit first, into the low bits of the result\<close>
  "word_of_bits bs = horner_sum of_bool 2 (rev bs)"

definition ReadBit :: "BitReader \<Rightarrow> error + (bool \<times> BitReader)" where
  "ReadBit r = (case r of [] \<Rightarrow> Inl UnexpectedEnd | b # r' \<Rightarrow> Inr (b, r'))"

definition ReadBits :: "int \<Rightarrow> BitReader \<Rightarrow> error + (64 word \<times> BitReader)" where
  "ReadBits nbits r =
     (if length r < nat nbits then Inl UnexpectedEnd
      else Inr (word_of_bits (take (nat nbits) r), drop (nat nbits) r))"

text \<open>The byte view of a bit sequence: eight bits a byte, most significant first.\<close>

fun pack_bytes :: "bool list \<Rightarrow> byte list" where
  "pack_bytes (b7 # b6 # b5 # b4 # b3 # b2 # b1 # b0 # bs) =
     word_of_bits [b7, b6, b5, b4, b3, b2, b1, b0] # pack_bytes bs"
| "pack_bytes _ = []"

definition unpack_bytes :: "byte list \<Rightarrow> bool list" where
  "unpack_bytes b = concat (map (\<lambda>x. bits_of x 8) b)"

text \<open>
  Modelled from the spec: \<^verbatim>\<open>bits.Clz\<close> and \<^verbatim>\<open>bits.Ctz\<close> of \<^verbatim>\<open>go-bits\<close> (missing from the
  sources), the numbers of leading and of trailing zero bits of a 64-bit value, 64 for 0.
\<close>

definition Clz :: "64 word \<Rightarrow> 64 word" where
  "Clz x = of_nat (length (takeWhile Not (bits_of x 64)))"

definition Ctz :: "64 word \<Rightarrow> 64 word" where
  "Ctz x = of_nat (length (takeWhile Not (rev (bits_of x 64))))"

section \<open>Encoder\<close>

text \<open>
  \<^verbatim>\<open>type Series struct\<close>. A \<^verbatim>\<open>float64\<close> is held as its IEEE-754 bit pattern, on which
  \<^verbatim>\<open>math.Float64bits\<close> and \<^verbatim>\<open>math.Float64frombits\<close> are the identity. The buffer \<^verbatim>\<open>buf\<close> is
  the completed bytes of \<open>s_bw\<close>. Field names carry the prefix \<open>s_\<close>, those of the
  decoder \<open>it_\<close>, since both structs use the same names.
\<close>

record Series =
  s_t0 :: "32 word"
  s_tDelta :: "32 word"
  s_t :: "32 word"
  s_val :: "64 word"
  s_leading :: "64 word"
  s_trailing :: "64 word"
  s_bw :: BitWriter
  s_finished :: bool

definition New :: "32 word \<Rightarrow> Series" where
  "New t0 =
     \<lparr>s_t0 = t0, s_tDelta = 0, s_t = 0, s_val = 0, s_leading = NOT 0, s_trailing = 0,
      s_bw = WriteBits (ucast t0) 32 [], s_finished = False\<rparr>"

definition Bytes :: "Series \<Rightarrow> byte list" where
  "Bytes s = pack_bytes (s_bw s)"

definition Finish :: "Series \<Rightarrow> Series" where
  "Finish s =
     (if \<not> s_finished s then
        s\<lparr>s_bw := Flush False (WriteBit False (WriteBits 0xffffffff 32 (WriteBits 0x0f 4 (s_bw s)))),
          s_finished := True\<rparr>
      else s)"

text \<open>
  \<^verbatim>\<open>Push\<close>. \<open>dod\<close> is the \<^verbatim>\<open>int32\<close> of the source: comparisons read it with \<open>sint\<close>, and
  \<^verbatim>\<open>uint64(dod)\<close> is the sign extension \<open>scast\<close>. \<^verbatim>\<open>int(x)\<close> of a \<^verbatim>\<open>uint64\<close> is \<open>sint x\<close>,
  and Go's \<^verbatim>\<open>int\<close> arithmetic wraps at 64 bits as the word arithmetic does.
\<close>

definition Push :: "32 word \<Rightarrow> 64 word \<Rightarrow> Series \<Rightarrow> Series" where
  "Push t v s =
     (if s_t s = 0 then
        let tD = t - s_t0 s in
        s\<lparr>s_t := t, s_val := v, s_tDelta := tD,
          s_bw := WriteBits v 64 (WriteBits (ucast tD) 14 (s_bw s))\<rparr>
      else
        let tDelta = t - s_t s;
            dod = tDelta - s_tDelta s;
            bw1 =
              (if dod = 0 then WriteBit False (s_bw s)
               else if -63 \<le> sint dod \<and> sint dod \<le> 64 then
                 WriteBits (scast dod) 7 (WriteBits 0x02 2 (s_bw s))
               else if -255 \<le> sint dod \<and> sint dod \<le> 256 then
                 WriteBits (scast dod) 9 (WriteBits 0x06 3 (s_bw s))
               else if -2047 \<le> sint dod \<and> sint dod \<le> 2048 then
                 WriteBits (scast dod) 12 (WriteBits 0x0e 4 (s_bw s))
               else
                 WriteBits (scast dod) 32 (WriteBits 0x0f 4 (s_bw s)));
            vDelta = v XOR s_val s;
            s2 =
              (if vDelta = 0 then s\<lparr>s_bw := WriteBit False bw1\<rparr>
               else
                 let bw2 = WriteBit True bw1;
                     leading = Clz vDelta;
                     trailing = Ctz vDelta
                 in
                   if s_leading s \<noteq> NOT 0 \<and> s_leading s \<le> leading \<and> s_trailing s \<le> trailing then
                     s\<lparr>s_bw :=
                         WriteBits (drop_bit (unat (s_trailing s)) vDelta)
                           (sint (64 - s_leading s - s_trailing s))
                           (WriteBit False bw2)\<rparr>
                   else
                     let sigbits = 64 - leading - trailing in
                     s\<lparr>s_leading := leading, s_trailing := trailing,
                       s_bw :=
                         WriteBits (drop_bit (unat trailing) vDelta) (sint sigbits)
                           (WriteBits sigbits 6 (WriteBits leading 5 (WriteBit True bw2)))\<rparr>)
        in s2\<lparr>s_tDelta := tDelta, s_t := t, s_val := v\<rparr>)"

section \<open>Decoder\<close>

record Iter =
  it_t0 :: "32 word"
  it_tDelta :: "32 word"
  it_t :: "32 word"
  it_val :: "64 word"
  it_leading :: "64 word"
  it_trailing :: "64 word"
  it_br :: BitReader
  it_b :: "byte list"
  it_finished :: bool
  it_err :: "error option"

definition NewIterator :: "byte list \<Rightarrow> error + Iter" where
  "NewIterator b =
     (case ReadBits 32 (unpack_bytes b) of
        Inl e \<Rightarrow> Inl e
      | Inr (t0, br) \<Rightarrow>
          Inr \<lparr>it_t0 = ucast t0, it_tDelta = 0, it_t = 0, it_val = 0, it_leading = 0,
               it_trailing = 0, it_br = br, it_b = b, it_finished = False, it_err = None\<rparr>)"

text \<open>
  The loop of \<^verbatim>\<open>Next\<close> that reads the prefix of a delta-of-delta: at most four bits, up to
  and including the first zero bit. The first argument counts the iterations left.
\<close>

fun read_prefix :: "nat \<Rightarrow> byte \<Rightarrow> BitReader \<Rightarrow> error + (byte \<times> BitReader)" where
  "read_prefix 0 d br = Inr (d, br)"
| "read_prefix (Suc n) d br =
     (let d1 = push_bit 1 d in
      case ReadBit br of
        Inl e \<Rightarrow> Inl e
      | Inr (b, br1) \<Rightarrow> if \<not> b then Inr (d1, br1) else read_prefix n (d1 OR 1) br1)"

text \<open>
  \<^verbatim>\<open>Next\<close>, second part (the \<^verbatim>\<open>switch d\<close> and the \<^verbatim>\<open>if sz != 0\<close> after the prefix
  loop): the delta-of-delta as the \<^verbatim>\<open>int32\<close> \<open>dod\<close>. \<open>Inl\<close> holds what \<^verbatim>\<open>Next\<close> returns
  when it returns from this part: a latched read error, or the end of the stream.
\<close>

definition Next_dod :: "Iter \<Rightarrow> (bool \<times> Iter) + (32 word \<times> Iter)" where
  "Next_dod it =
     (case read_prefix 4 0 (it_br it) of
        Inl e \<Rightarrow> Inl (False, it\<lparr>it_err := Some e\<rparr>)
      | Inr (d, br1) \<Rightarrow>
          (case
             (if d = 0x0f then
                (case ReadBits 32 br1 of
                   Inl e \<Rightarrow> Inl (False, it\<lparr>it_br := br1, it_err := Some e\<rparr>)
                 | Inr (bits, br2) \<Rightarrow>
                     if bits = 0xffffffff then Inl (False, it\<lparr>it_br := br2, it_finished := True\<rparr>)
                     else Inr (ucast bits :: 32 word, 0 :: nat, br2))
              else
                Inr (0, if d = 0x02 then 7 else if d = 0x06 then 9 else if d = 0x0e then 12 else 0,
                     br1))
           of
             Inl r \<Rightarrow> Inl r
           | Inr (dod, sz, br2) \<Rightarrow>
               if sz \<noteq> 0 then
                 (case ReadBits (int sz) br2 of
                    Inl e \<Rightarrow> Inl (False, it\<lparr>it_br := br2, it_err := Some e\<rparr>)
                  | Inr (bits, br3) \<Rightarrow>
                      let bits1 = (if bits > push_bit (sz - 1) 1 then bits - push_bit sz 1 else bits)
                      in Inr (ucast bits1, it\<lparr>it_br := br3\<rparr>))
               else Inr (dod, it\<lparr>it_br := br2\<rparr>)))"

text \<open>\<^verbatim>\<open>Next\<close>, third part: the new timestamp, then the compressed value.\<close>

definition Next_value :: "32 word \<Rightarrow> Iter \<Rightarrow> bool \<times> Iter" where
  "Next_value dod it =
     (let tDelta = it_tDelta it + dod;
          it1 = it\<lparr>it_tDelta := tDelta, it_t := it_t it + tDelta\<rparr>
      in
        case ReadBit (it_br it1) of
          Inl e \<Rightarrow> (False, it1\<lparr>it_err := Some e\<rparr>)
        | Inr (b, br1) \<Rightarrow>
            if \<not> b then (True, it1\<lparr>it_br := br1\<rparr>)
            else
              (case ReadBit br1 of
                 Inl e \<Rightarrow> (False, it1\<lparr>it_br := br1, it_err := Some e\<rparr>)
               | Inr (b2, br2) \<Rightarrow>
                   (case
                      (if \<not> b2 then Inr (it1\<lparr>it_br := br2\<rparr>)
                       else
                         (case ReadBits 5 br2 of
                            Inl e \<Rightarrow> Inl (False, it1\<lparr>it_br := br2, it_err := Some e\<rparr>)
                          | Inr (bits, br3) \<Rightarrow>
                              let it2 = it1\<lparr>it_leading := bits, it_br := br3\<rparr> in
                              (case ReadBits 6 br3 of
                                 Inl e \<Rightarrow> Inl (False, it2\<lparr>it_err := Some e\<rparr>)
                               | Inr (mbits, br4) \<Rightarrow>
                                   Inr (it2\<lparr>it_trailing := 64 - it_leading it2 - mbits,
                                            it_br := br4\<rparr>))))
                    of
                      Inl r \<Rightarrow> r
                    | Inr it3 \<Rightarrow>
                        let mbits = sint (64 - it_leading it3 - it_trailing it3) in
                        (case ReadBits mbits (it_br it3) of
                           Inl e \<Rightarrow> (False, it3\<lparr>it_err := Some e\<rparr>)
                         | Inr (bits, br5) \<Rightarrow>
                             (True,
                              it3\<lparr>it_val := it_val it3 XOR push_bit (unat (it_trailing it3)) bits,
                                  it_br := br5\<rparr>)))))"

text \<open>\<^verbatim>\<open>Next\<close>: the guard, the first sample, and the two parts above for every other one.\<close>

definition Next :: "Iter \<Rightarrow> bool \<times> Iter" where
  "Next it =
     (if it_err it \<noteq> None \<or> it_finished it then (False, it)
      else if it_t it = 0 then
        (case ReadBits 14 (it_br it) of
           Inl e \<Rightarrow> (False, it\<lparr>it_err := Some e\<rparr>)
         | Inr (tDelta, br1) \<Rightarrow>
             let it1 = it\<lparr>it_tDelta := ucast tDelta, it_t := it_t0 it + ucast tDelta,
                          it_br := br1\<rparr>
             in
               (case ReadBits 64 br1 of
                  Inl e \<Rightarrow> (False, it1\<lparr>it_err := Some e\<rparr>)
                | Inr (v, br2) \<Rightarrow> (True, it1\<lparr>it_val := v, it_br := br2\<rparr>)))
      else
        (case Next_dod it of
           Inl r \<Rightarrow> r
         | Inr (dod, it1) \<Rightarrow> Next_value dod it1))"

definition Values :: "Iter \<Rightarrow> 32 word \<times> 64 word" where
  "Values it = (it_t it, it_val it)"

definition Err :: "Iter \<Rightarrow> error option" where
  "Err it = it_err it"

text \<open>\<^verbatim>\<open>Series.Iter\<close>: an iterator over the bytes written so far; the error is dropped.\<close>

definition Iter_of :: "Series \<Rightarrow> Iter option" where
  "Iter_of s = (case NewIterator (Bytes s) of Inl e \<Rightarrow> None | Inr it \<Rightarrow> Some it)"

section \<open>Example states\<close>

definition short_iter :: Iter where
  \<comment> \<open>an iterator on a block that ends after its header: \<^verbatim>\<open>NewIterator\<close> of four bytes\<close>
  "short_iter =
     \<lparr>it_t0 = 1000, it_tDelta = 0, it_t = 0, it_val = 0, it_leading = 0, it_trailing = 0,
      it_br = [], it_b = [0, 0, 3, 232], it_finished = False, it_err = None\<rparr>"

definition enc1 :: Series where
  \<comment> \<open>an encoder that holds one sample\<close>
  "enc1 = Push 10 0x3FF0000000000000 (New 0)"

definition sub_iter :: Iter where
  \<comment> \<open>an iterator that has yielded one sample; the reader is set where it is used\<close>
  "sub_iter =
     \<lparr>it_t0 = 0, it_tDelta = 10, it_t = 10, it_val = 0x3FF0000000000000, it_leading = 0,
      it_trailing = 0, it_br = [], it_b = [], it_finished = False, it_err = None\<rparr>"

section \<open>Bit-level facts\<close>

lemma length_bits_of [simp]: "length (bits_of u n) = n"
  by (simp add: bits_of_def)

lemma word_of_bits_bits_of: "word_of_bits (bits_of u n) = take_bit n u"
  by (simp add: word_of_bits_def bits_of_def rev_map horner_sum_bit_eq_take_bit)

lemma ReadBits_bits_of:
  "0 \<le> n \<Longrightarrow> ReadBits n (bits_of u (nat n) @ r) = Inr (take_bit (nat n) u, r)"
  by (simp add: ReadBits_def word_of_bits_bits_of)

lemma bits_of_scast:
  assumes "n \<le> 32"
  shows "bits_of (scast (d :: 32 word) :: 64 word) n = bits_of d n"
proof -
  have "bit (scast d :: 64 word) k = bit d k" if "k < 32" for k
    using that by (cases "k = 31") (auto simp: bit_signed_iff min_def)
  then show ?thesis
    using assms by (simp add: bits_of_def)
qed

lemma ReadBit_Cons [simp]: "ReadBit (b # r) = Inr (b, r)"
  by (simp add: ReadBit_def)

lemma ReadBit_Nil [simp]: "ReadBit [] = Inl UnexpectedEnd"
  by (simp add: ReadBit_def)

lemma read_prefix_0: "read_prefix 4 0 (False # r) = Inr (0, r)"
  by (simp add: numeral_eq_Suc)

lemma read_prefix_10: "read_prefix 4 0 (True # False # r) = Inr (0x02, r)"
  by (simp add: numeral_eq_Suc)

lemma read_prefix_110: "read_prefix 4 0 (True # True # False # r) = Inr (0x06, r)"
  by (simp add: numeral_eq_Suc)

lemma read_prefix_1110: "read_prefix 4 0 (True # True # True # False # r) = Inr (0x0e, r)"
  by (simp add: numeral_eq_Suc)

lemma read_prefix_1111: "read_prefix 4 0 (True # True # True # True # r) = Inr (0x0f, r)"
  by (simp add: numeral_eq_Suc)

lemma bits_of_ucast:
  assumes "n \<le> 32"
  shows "bits_of (ucast (d :: 32 word) :: 64 word) n = bits_of d n"
  using assms by (simp add: bits_of_def bit_unsigned_iff)

lemma prefix_bits:
  "bits_of (0x02 :: 64 word) 2 = [True, False]"
  "bits_of (0x06 :: 64 word) 3 = [True, True, False]"
  "bits_of (0x0e :: 64 word) 4 = [True, True, True, False]"
  "bits_of (0x0f :: 64 word) 4 = [True, True, True, True]"
  by code_simp+

lemma payload_bits:
  "bits_of (64 :: 32 word) 7 = [True, False, False, False, False, False, False]"
  "bits_of (- 64 :: 32 word) 9 = [True, True, True, False, False, False, False, False, False]"
  "bits_of (64 :: 64 word) 7 = [True, False, False, False, False, False, False]"
  "bits_of (448 :: 64 word) 9 = [True, True, True, False, False, False, False, False, False]"
  "bits_of (- 64 :: 64 word) 9 = [True, True, True, False, False, False, False, False, False]"
  by code_simp+

section \<open>The end-of-stream marker is written once\<close>

lemma Finish_finished: "s_finished s \<Longrightarrow> Finish s = s"
  by (simp add: Finish_def)

lemma finished_Finish: "s_finished (Finish s)"
  by (simp add: Finish_def)

text \<open>
  C6. Calling \<^verbatim>\<open>Finish\<close> twice leaves the encoder in the state, and \<^verbatim>\<open>Bytes\<close> with the byte
  sequence, that one call gives, from every encoder state.
\<close>

theorem Finish_idempotent:
  "Finish (Finish s) = Finish s \<and> Bytes (Finish (Finish s)) = Bytes (Finish s)"
  by (simp add: Finish_finished finished_Finish)

section \<open>The latched error of the decoder\<close>

lemma Next_latched: "it_err it = Some e \<Longrightarrow> Next it = (False, it)"
  by (simp add: Next_def)

lemma Next_value_False:
  "fst (Next_value d it) = False \<Longrightarrow> it_err (snd (Next_value d it)) \<noteq> None"
  by (auto simp: Next_value_def Let_def split: sum.splits prod.splits if_splits)

lemma Next_dod_Inl:
  "Next_dod it = Inl r \<Longrightarrow> \<not> fst r \<and> (it_err (snd r) \<noteq> None \<or> it_finished (snd r))"
  by (auto simp: Next_dod_def Let_def split: sum.splits prod.splits if_splits)

lemma Next_False:
  assumes ret: "fst (Next it) = False"
  shows "it_err (snd (Next it)) \<noteq> None \<or> it_finished (snd (Next it))"
proof (cases "it_err it \<noteq> None \<or> it_finished it")
  case True
  then show ?thesis by (auto simp: Next_def)
next
  case guard: False
  show ?thesis
  proof (cases "it_t it = 0")
    case True
    with guard ret show ?thesis
      by (auto simp: Next_def Let_def split: sum.splits prod.splits)
  next
    case False
    show ?thesis
    proof (cases "Next_dod it")
      case (Inl r)
      with guard False Next_dod_Inl [OF Inl] show ?thesis
        by (simp add: Next_def)
    next
      case (Inr p)
      with guard False ret Next_value_False [of "fst p" "snd p"] show ?thesis
        by (simp add: Next_def split: prod.splits)
    qed
  qed
qed

lemma funpow_Next_latched:
  "it_err it = Some e \<Longrightarrow> ((\<lambda>i. snd (Next i)) ^^ n) it = it"
  by (induction n) (simp_all add: Next_latched)

lemma Next_subsequent:
  "it_err it = None \<Longrightarrow> \<not> it_finished it \<Longrightarrow> it_t it \<noteq> 0 \<Longrightarrow>
     Next it = (case Next_dod it of Inl r \<Rightarrow> r | Inr (dod, it1) \<Rightarrow> Next_value dod it1)"
  by (simp add: Next_def)

lemma Next_first_read_fails:
  assumes "it_err it = None" "\<not> it_finished it" "it_t it = 0"
  shows "ReadBits 14 (it_br it) = Inl e \<Longrightarrow> Next it = (False, it\<lparr>it_err := Some e\<rparr>)"
    and "ReadBits 14 (it_br it) = Inr (d, br1) \<Longrightarrow> ReadBits 64 br1 = Inl e \<Longrightarrow>
         Next it = (False, it\<lparr>it_tDelta := ucast d, it_t := it_t0 it + ucast d, it_br := br1,
                              it_err := Some e\<rparr>)"
  using assms by (simp_all add: Next_def Let_def)

lemma read_prefix_runs_out:
  "br \<in> {[], [True], [True, True], [True, True, True]} \<Longrightarrow> read_prefix 4 0 br = Inl UnexpectedEnd"
  by (auto simp: numeral_eq_Suc)

lemma Next_dod_read_fails:
  shows "read_prefix 4 0 (it_br it) = Inl e \<Longrightarrow> Next_dod it = Inl (False, it\<lparr>it_err := Some e\<rparr>)"
    and "read_prefix 4 0 (it_br it) = Inr (0x0f, br1) \<Longrightarrow> ReadBits 32 br1 = Inl e \<Longrightarrow>
         Next_dod it = Inl (False, it\<lparr>it_br := br1, it_err := Some e\<rparr>)"
    and "read_prefix 4 0 (it_br it) = Inr (d, br1) \<Longrightarrow>
         (d, sz) \<in> {(0x02, 7), (0x06, 9), (0x0e, 12)} \<Longrightarrow> ReadBits sz br1 = Inl e \<Longrightarrow>
         Next_dod it = Inl (False, it\<lparr>it_br := br1, it_err := Some e\<rparr>)"
  by (auto simp: Next_dod_def Let_def)

lemma Next_value_read_fails:
  fixes it :: Iter and dod :: "32 word"
  defines "it1 \<equiv> it\<lparr>it_tDelta := it_tDelta it + dod, it_t := it_t it + (it_tDelta it + dod)\<rparr>"
  shows "ReadBit (it_br it) = Inl e \<Longrightarrow> Next_value dod it = (False, it1\<lparr>it_err := Some e\<rparr>)"
    and "ReadBit (it_br it) = Inr (True, br1) \<Longrightarrow> ReadBit br1 = Inl e \<Longrightarrow>
         Next_value dod it = (False, it1\<lparr>it_br := br1, it_err := Some e\<rparr>)"
    and "ReadBit (it_br it) = Inr (True, br1) \<Longrightarrow> ReadBit br1 = Inr (False, br2) \<Longrightarrow>
         ReadBits (sint (64 - it_leading it - it_trailing it)) br2 = Inl e \<Longrightarrow>
         Next_value dod it = (False, it1\<lparr>it_br := br2, it_err := Some e\<rparr>)"
    and "ReadBit (it_br it) = Inr (True, br1) \<Longrightarrow> ReadBit br1 = Inr (True, br2) \<Longrightarrow>
         ReadBits 5 br2 = Inl e \<Longrightarrow>
         Next_value dod it = (False, it1\<lparr>it_br := br2, it_err := Some e\<rparr>)"
    and "ReadBit (it_br it) = Inr (True, br1) \<Longrightarrow> ReadBit br1 = Inr (True, br2) \<Longrightarrow>
         ReadBits 5 br2 = Inr (l, br3) \<Longrightarrow> ReadBits 6 br3 = Inl e \<Longrightarrow>
         Next_value dod it = (False, it1\<lparr>it_leading := l, it_br := br3, it_err := Some e\<rparr>)"
    and "ReadBit (it_br it) = Inr (True, br1) \<Longrightarrow> ReadBit br1 = Inr (True, br2) \<Longrightarrow>
         ReadBits 5 br2 = Inr (l, br3) \<Longrightarrow> ReadBits 6 br3 = Inr (m, br4) \<Longrightarrow>
         ReadBits (sint (64 - l - (64 - l - m))) br4 = Inl e \<Longrightarrow>
         Next_value dod it =
           (False, it1\<lparr>it_leading := l, it_trailing := 64 - l - m, it_br := br4, it_err := Some e\<rparr>)"
  by (simp_all add: Next_value_def Let_def it1_def)

lemma ReadBits_short: "length r < nat n \<Longrightarrow> ReadBits n r = Inl UnexpectedEnd"
  by (simp add: ReadBits_def)

text \<open>
  C9. Every read of \<^verbatim>\<open>Next\<close> that fails makes \<^verbatim>\<open>Next\<close> return false with the error
  of that read latched: the two reads of a first sample; the reads of the prefix loop (the
  reader runs out after zero to three one bits), of the 32-bit payload and of a payload of
  7, 9 or 12 bits; and, once the delta-of-delta \<open>dod\<close> is read and the timestamp updated
  (\<open>it2\<close>), the reads of the value bit, of the control bit, of the significant bits with the
  window reused, of the 5-bit and the 6-bit field, and of the significant bits of a new
  window. A call that returns false without reaching the end of the stream has latched an
  error. With an error latched, \<^verbatim>\<open>Next\<close> returns false and leaves the whole iterator as it
  is: the reader, the decoded sample and the error, which \<^verbatim>\<open>Err\<close> goes on returning, after
  any number of further calls.
\<close>

theorem Next_sticky_error:
  "(it_err it = None \<and> \<not> it_finished it \<and> it_t it = 0 \<longrightarrow>
      (ReadBits 14 (it_br it) = Inl e \<longrightarrow> Next it = (False, it\<lparr>it_err := Some e\<rparr>)) \<and>
      (ReadBits 14 (it_br it) = Inr (d, br1) \<and> ReadBits 64 br1 = Inl e \<longrightarrow>
         Next it =
           (False, it\<lparr>it_tDelta := ucast d, it_t := it_t0 it + ucast d, it_br := br1,
                      it_err := Some e\<rparr>))) \<and>
   (it_err it = None \<and> \<not> it_finished it \<and> it_t it \<noteq> 0 \<longrightarrow>
      (it_br it \<in> {[], [True], [True, True], [True, True, True]} \<longrightarrow>
         Next it = (False, it\<lparr>it_err := Some UnexpectedEnd\<rparr>)) \<and>
      (read_prefix 4 0 (it_br it) = Inl e \<longrightarrow> Next it = (False, it\<lparr>it_err := Some e\<rparr>)) \<and>
      (read_prefix 4 0 (it_br it) = Inr (0x0f, br1) \<and> ReadBits 32 br1 = Inl e \<longrightarrow>
         Next it = (False, it\<lparr>it_br := br1, it_err := Some e\<rparr>)) \<and>
      (read_prefix 4 0 (it_br it) = Inr (p, br1) \<and> (p, sz) \<in> {(0x02, 7), (0x06, 9), (0x0e, 12)} \<and>
       ReadBits sz br1 = Inl e \<longrightarrow>
         Next it = (False, it\<lparr>it_br := br1, it_err := Some e\<rparr>)) \<and>
      (Next_dod it = Inr (dod, it1) \<longrightarrow>
         (let it2 = it1\<lparr>it_tDelta := it_tDelta it1 + dod, it_t := it_t it1 + (it_tDelta it1 + dod)\<rparr>
          in
            (ReadBit (it_br it1) = Inl e \<longrightarrow> Next it = (False, it2\<lparr>it_err := Some e\<rparr>)) \<and>
            (ReadBit (it_br it1) = Inr (True, b1) \<and> ReadBit b1 = Inl e \<longrightarrow>
               Next it = (False, it2\<lparr>it_br := b1, it_err := Some e\<rparr>)) \<and>
            (ReadBit (it_br it1) = Inr (True, b1) \<and> ReadBit b1 = Inr (False, b2) \<and>
             ReadBits (sint (64 - it_leading it1 - it_trailing it1)) b2 = Inl e \<longrightarrow>
               Next it = (False, it2\<lparr>it_br := b2, it_err := Some e\<rparr>)) \<and>
            (ReadBit (it_br it1) = Inr (True, b1) \<and> ReadBit b1 = Inr (True, b2) \<and>
             ReadBits 5 b2 = Inl e \<longrightarrow>
               Next it = (False, it2\<lparr>it_br := b2, it_err := Some e\<rparr>)) \<and>
            (ReadBit (it_br it1) = Inr (True, b1) \<and> ReadBit b1 = Inr (True, b2) \<and>
             ReadBits 5 b2 = Inr (l, b3) \<and> ReadBits 6 b3 = Inl e \<longrightarrow>
               Next it = (False, it2\<lparr>it_leading := l, it_br := b3, it_err := Some e\<rparr>)) \<and>
            (ReadBit (it_br it1) = Inr (True, b1) \<and> ReadBit b1 = Inr (True, b2) \<and>
             ReadBits 5 b2 = Inr (l, b3) \<and> ReadBits 6 b3 = Inr (m, b4) \<and>
             ReadBits (sint (64 - l - (64 - l - m))) b4 = Inl e \<longrightarrow>
               Next it =
                 (False, it2\<lparr>it_leading := l, it_trailing := 64 - l - m, it_br := b4,
                            it_err := Some e\<rparr>))))) \<and>
   (fst (Next it) = False \<and> \<not> it_finished (snd (Next it)) \<longrightarrow> Err (snd (Next it)) \<noteq> None) \<and>
   (Err it = Some e \<longrightarrow>
      Next it = (False, it) \<and> Err (snd (Next it)) = Some e \<and>
      (\<forall>n. ((\<lambda>i. snd (Next i)) ^^ n) it = it))"
proof (intro conjI impI; (elim conjE)?)
  assume g: "it_err it = None" "\<not> it_finished it" "it_t it = 0"
  {
    assume "ReadBits 14 (it_br it) = Inl e"
    then show "Next it = (False, it\<lparr>it_err := Some e\<rparr>)"
      by (rule Next_first_read_fails(1) [OF g])
  next
    assume "ReadBits 14 (it_br it) = Inr (d, br1)" "ReadBits 64 br1 = Inl e"
    then show "Next it =
           (False, it\<lparr>it_tDelta := ucast d, it_t := it_t0 it + ucast d, it_br := br1,
                      it_err := Some e\<rparr>)"
      by (rule Next_first_read_fails(2) [OF g])
  }
next
  assume g: "it_err it = None" "\<not> it_finished it" "it_t it \<noteq> 0"
  note sub = Next_subsequent [OF g]
  {
    assume "it_br it \<in> {[], [True], [True, True], [True, True, True]}"
    then show "Next it = (False, it\<lparr>it_err := Some UnexpectedEnd\<rparr>)"
      by (simp add: sub Next_dod_read_fails(1) [OF read_prefix_runs_out])
  next
    assume "read_prefix 4 0 (it_br it) = Inl e"
    then show "Next it = (False, it\<lparr>it_err := Some e\<rparr>)"
      by (simp add: sub Next_dod_read_fails(1))
  next
    assume "read_prefix 4 0 (it_br it) = Inr (0x0f, br1)" "ReadBits 32 br1 = Inl e"
    then show "Next it = (False, it\<lparr>it_br := br1, it_err := Some e\<rparr>)"
      by (simp add: sub Next_dod_read_fails(2))
  next
    assume "read_prefix 4 0 (it_br it) = Inr (p, br1)"
      "(p, sz) \<in> {(0x02, 7), (0x06, 9), (0x0e, 12)}" "ReadBits sz br1 = Inl e"
    then show "Next it = (False, it\<lparr>it_br := br1, it_err := Some e\<rparr>)"
      by (simp add: sub Next_dod_read_fails(3))
  next
    assume "Next_dod it = Inr (dod, it1)"
    then have nv: "Next it = Next_value dod it1"
      by (simp add: sub)
    show "let it2 = it1\<lparr>it_tDelta := it_tDelta it1 + dod, it_t := it_t it1 + (it_tDelta it1 + dod)\<rparr>
          in
            (ReadBit (it_br it1) = Inl e \<longrightarrow> Next it = (False, it2\<lparr>it_err := Some e\<rparr>)) \<and>
            (ReadBit (it_br it1) = Inr (True, b1) \<and> ReadBit b1 = Inl e \<longrightarrow>
               Next it = (False, it2\<lparr>it_br := b1, it_err := Some e\<rparr>)) \<and>
            (ReadBit (it_br it1) = Inr (True, b1) \<and> ReadBit b1 = Inr (False, b2) \<and>
             ReadBits (sint (64 - it_leading it1 - it_trailing it1)) b2 = Inl e \<longrightarrow>
               Next it = (False, it2\<lparr>it_br := b2, it_err := Some e\<rparr>)) \<and>
            (ReadBit (it_br it1) = Inr (True, b1) \<and> ReadBit b1 = Inr (True, b2) \<and>
             ReadBits 5 b2 = Inl e \<longrightarrow>
               Next it = (False, it2\<lparr>it_br := b2, it_err := Some e\<rparr>)) \<and>
            (ReadBit (it_br it1) = Inr (True, b1) \<and> ReadBit b1 = Inr (True, b2) \<and>
             ReadBits 5 b2 = Inr (l, b3) \<and> ReadBits 6 b3 = Inl e \<longrightarrow>
               Next it = (False, it2\<lparr>it_leading := l, it_br := b3, it_err := Some e\<rparr>)) \<and>
            (ReadBit (it_br it1) = Inr (True, b1) \<and> ReadBit b1 = Inr (True, b2) \<and>
             ReadBits 5 b2 = Inr (l, b3) \<and> ReadBits 6 b3 = Inr (m, b4) \<and>
             ReadBits (sint (64 - l - (64 - l - m))) b4 = Inl e \<longrightarrow>
               Next it =
                 (False, it2\<lparr>it_leading := l, it_trailing := 64 - l - m, it_br := b4,
                            it_err := Some e\<rparr>))"
      unfolding nv Let_def
      by (intro conjI impI; (elim conjE)?) (simp_all only: Next_value_read_fails)
  }
next
  assume "fst (Next it) = False" "\<not> it_finished (snd (Next it))"
  with Next_False [of it] show "Err (snd (Next it)) \<noteq> None"
    by (simp add: Err_def)
next
  assume e: "Err it = Some e"
  then show "Next it = (False, it)"
    by (simp add: Err_def Next_latched)
  from e show "Err (snd (Next it)) = Some e"
    by (simp add: Err_def Next_latched)
  from e show "\<forall>n. ((\<lambda>i. snd (Next i)) ^^ n) it = it"
    by (simp add: Err_def funpow_Next_latched)
qed

text \<open>
  The hypotheses of C9, one reader for each read that can fail, on \<open>short_iter\<close> (before
  the first sample) and \<open>sub_iter\<close> (after it); then the latched error of \<open>short_iter\<close>.
\<close>

theorem Next_sticky_error_witness:
  "NewIterator [0, 0, 3, 232] = Inr short_iter \<and>
   Next short_iter = (False, short_iter\<lparr>it_err := Some UnexpectedEnd\<rparr>) \<and>
   Next (short_iter\<lparr>it_br := replicate 14 False\<rparr>) =
     (False, short_iter\<lparr>it_tDelta := 0, it_t := 1000, it_br := [], it_err := Some UnexpectedEnd\<rparr>) \<and>
   Next (sub_iter\<lparr>it_br := [True]\<rparr>) =
     (False, sub_iter\<lparr>it_br := [True], it_err := Some UnexpectedEnd\<rparr>) \<and>
   Next (sub_iter\<lparr>it_br := [True, True, True, True]\<rparr>) =
     (False, sub_iter\<lparr>it_br := [], it_err := Some UnexpectedEnd\<rparr>) \<and>
   Next (sub_iter\<lparr>it_br := [True, False]\<rparr>) =
     (False, sub_iter\<lparr>it_br := [], it_err := Some UnexpectedEnd\<rparr>) \<and>
   Next (sub_iter\<lparr>it_br := [False]\<rparr>) =
     (False, sub_iter\<lparr>it_t := 20, it_br := [], it_err := Some UnexpectedEnd\<rparr>) \<and>
   Next (sub_iter\<lparr>it_br := [False, True]\<rparr>) =
     (False, sub_iter\<lparr>it_t := 20, it_br := [], it_err := Some UnexpectedEnd\<rparr>) \<and>
   Next (sub_iter\<lparr>it_br := [False, True, False]\<rparr>) =
     (False, sub_iter\<lparr>it_t := 20, it_br := [], it_err := Some UnexpectedEnd\<rparr>) \<and>
   Next (sub_iter\<lparr>it_br := [False, True, True]\<rparr>) =
     (False, sub_iter\<lparr>it_t := 20, it_br := [], it_err := Some UnexpectedEnd\<rparr>) \<and>
   Next (sub_iter\<lparr>it_br := [False, True, True, False, False, False, False, True]\<rparr>) =
     (False, sub_iter\<lparr>it_t := 20, it_leading := 1, it_br := [], it_err := Some UnexpectedEnd\<rparr>) \<and>
   Next (sub_iter\<lparr>it_br := [False, True, True, False, False, False, False, True,
                                 False, False, False, False, True, False]\<rparr>) =
     (False, sub_iter\<lparr>it_t := 20, it_leading := 1, it_trailing := 61, it_br := [],
                      it_err := Some UnexpectedEnd\<rparr>) \<and>
   fst (Next short_iter) = False \<and> \<not> it_finished (snd (Next short_iter)) \<and>
   Err (snd (Next short_iter)) = Some UnexpectedEnd \<and>
   Next (snd (Next short_iter)) = (False, snd (Next short_iter)) \<and>
   Err (snd (Next (snd (Next short_iter)))) = Some UnexpectedEnd \<and>
   ((\<lambda>i. snd (Next i)) ^^ 3) (snd (Next short_iter)) = snd (Next short_iter)"
proof -
  have new: "NewIterator [0, 0, 3, 232] = Inr short_iter"
    by code_simp
  have g0: "it_err (short_iter\<lparr>it_br := r\<rparr>) = None" "\<not> it_finished (short_iter\<lparr>it_br := r\<rparr>)"
    "it_t (short_iter\<lparr>it_br := r\<rparr>) = 0" "it_t0 (short_iter\<lparr>it_br := r\<rparr>) = 1000" for r
    by (simp_all add: short_iter_def)
  have g1: "it_err (sub_iter\<lparr>it_br := r\<rparr>) = None" "\<not> it_finished (sub_iter\<lparr>it_br := r\<rparr>)"
    "it_t (sub_iter\<lparr>it_br := r\<rparr>) \<noteq> 0" "it_t (sub_iter\<lparr>it_br := r\<rparr>) = 10"
    "it_tDelta (sub_iter\<lparr>it_br := r\<rparr>) = 10"
    "it_leading (sub_iter\<lparr>it_br := r\<rparr>) = 0" "it_trailing (sub_iter\<lparr>it_br := r\<rparr>) = 0" for r
    by (simp_all add: sub_iter_def)
  have s0: "short_iter\<lparr>it_br := []\<rparr> = short_iter"
    by (simp add: short_iter_def)
  have dod0: "Next_dod (sub_iter\<lparr>it_br := False # r\<rparr>) = Inr (0, sub_iter\<lparr>it_br := r\<rparr>)" for r
    by (simp add: Next_dod_def read_prefix_0)
  have rb14: "ReadBits 14 (replicate 14 False) = Inr (0, [])"
    by code_simp
  have rb5: "ReadBits 5 [False, False, False, False, True] = Inr (1, [])"
    "ReadBits 5 [False, False, False, False, True, False, False, False, False, True, False] =
       Inr (1, [False, False, False, False, True, False])"
    "ReadBits 6 [False, False, False, False, True, False] = Inr (2, [])"
    by code_simp+
  note facts = ReadBits_short rb14 rb5 read_prefix_0 read_prefix_10 read_prefix_1111 Next_dod_def
    Let_def sub_iter_def short_iter_def
  have w1: "Next short_iter = (False, short_iter\<lparr>it_err := Some UnexpectedEnd\<rparr>)"
    using Next_sticky_error [where it = short_iter and e = UnexpectedEnd]
    by (simp add: facts)
  have w2: "Next (short_iter\<lparr>it_br := replicate 14 False\<rparr>) =
     (False, short_iter\<lparr>it_tDelta := 0, it_t := 1000, it_br := [], it_err := Some UnexpectedEnd\<rparr>)"
    using Next_sticky_error [where it = "short_iter\<lparr>it_br := replicate 14 False\<rparr>"
        and e = UnexpectedEnd and d = 0 and ?br1.0 = "[]"]
    by (simp add: facts)
  have w3: "Next (sub_iter\<lparr>it_br := [True]\<rparr>) =
     (False, sub_iter\<lparr>it_br := [True], it_err := Some UnexpectedEnd\<rparr>)"
    using Next_sticky_error [where it = "sub_iter\<lparr>it_br := [True]\<rparr>" and e = UnexpectedEnd]
    by (simp add: facts)
  have w4: "Next (sub_iter\<lparr>it_br := [True, True, True, True]\<rparr>) =
     (False, sub_iter\<lparr>it_br := [], it_err := Some UnexpectedEnd\<rparr>)"
    using Next_sticky_error [where it = "sub_iter\<lparr>it_br := [True, True, True, True]\<rparr>"
        and e = UnexpectedEnd and ?br1.0 = "[]"]
    by (simp add: facts)
  have w5: "Next (sub_iter\<lparr>it_br := [True, False]\<rparr>) =
     (False, sub_iter\<lparr>it_br := [], it_err := Some UnexpectedEnd\<rparr>)"
    using Next_sticky_error [where it = "sub_iter\<lparr>it_br := [True, False]\<rparr>"
        and e = UnexpectedEnd and ?br1.0 = "[]" and p = 2 and sz = 7]
    by (simp add: facts)
  have w6: "Next (sub_iter\<lparr>it_br := [False]\<rparr>) =
     (False, sub_iter\<lparr>it_t := 20, it_br := [], it_err := Some UnexpectedEnd\<rparr>)"
    using Next_sticky_error [where it = "sub_iter\<lparr>it_br := [False]\<rparr>"
        and e = UnexpectedEnd and dod = 0 and ?it1.0 = "sub_iter\<lparr>it_br := []\<rparr>"]
    by (simp add: facts)
  have w7: "Next (sub_iter\<lparr>it_br := [False, True]\<rparr>) =
     (False, sub_iter\<lparr>it_t := 20, it_br := [], it_err := Some UnexpectedEnd\<rparr>)"
    using Next_sticky_error [where it = "sub_iter\<lparr>it_br := [False, True]\<rparr>"
        and e = UnexpectedEnd and dod = 0 and ?it1.0 = "sub_iter\<lparr>it_br := [True]\<rparr>"
        and ?b1.0 = "[]"]
    by (simp add: facts)
  have w8: "Next (sub_iter\<lparr>it_br := [False, True, False]\<rparr>) =
     (False, sub_iter\<lparr>it_t := 20, it_br := [], it_err := Some UnexpectedEnd\<rparr>)"
    using Next_sticky_error [where it = "sub_iter\<lparr>it_br := [False, True, False]\<rparr>"
        and e = UnexpectedEnd and dod = 0 and ?it1.0 = "sub_iter\<lparr>it_br := [True, False]\<rparr>"
        and ?b1.0 = "[False]" and ?b2.0 = "[]"]
    by (simp add: facts)
  have w9: "Next (sub_iter\<lparr>it_br := [False, True, True]\<rparr>) =
     (False, sub_iter\<lparr>it_t := 20, it_br := [], it_err := Some UnexpectedEnd\<rparr>)"
    using Next_sticky_error [where it = "sub_iter\<lparr>it_br := [False, True, True]\<rparr>"
        and e = UnexpectedEnd and dod = 0 and ?it1.0 = "sub_iter\<lparr>it_br := [True, True]\<rparr>"
        and ?b1.0 = "[True]" and ?b2.0 = "[]"]
    by (simp add: facts)
  have w10: "Next (sub_iter\<lparr>it_br := [False, True, True, False, False, False, False, True]\<rparr>) =
     (False, sub_iter\<lparr>it_t := 20, it_leading := 1, it_br := [], it_err := Some UnexpectedEnd\<rparr>)"
    using Next_sticky_error
      [where it = "sub_iter\<lparr>it_br := [False, True, True, False, False, False, False, True]\<rparr>"
        and e = UnexpectedEnd and dod = 0
        and ?it1.0 = "sub_iter\<lparr>it_br := [True, True, False, False, False, False, True]\<rparr>"
        and ?b1.0 = "[True, False, False, False, False, True]"
        and ?b2.0 = "[False, False, False, False, True]" and l = 1 and ?b3.0 = "[]"]
    by (simp add: facts)
  have w11: "Next (sub_iter\<lparr>it_br := [False, True, True, False, False, False, False, True,
                                 False, False, False, False, True, False]\<rparr>) =
     (False, sub_iter\<lparr>it_t := 20, it_leading := 1, it_trailing := 61, it_br := [],
                      it_err := Some UnexpectedEnd\<rparr>)"
    using Next_sticky_error
      [where it = "sub_iter\<lparr>it_br := [False, True, True, False, False, False, False, True,
                                 False, False, False, False, True, False]\<rparr>"
        and e = UnexpectedEnd and dod = 0
        and ?it1.0 = "sub_iter\<lparr>it_br := [True, True, False, False, False, False, True,
                                 False, False, False, False, True, False]\<rparr>"
        and ?b1.0 = "[True, False, False, False, False, True, False, False, False, False, True, False]"
        and ?b2.0 = "[False, False, False, False, True, False, False, False, False, True, False]"
        and l = 1 and ?b3.0 = "[False, False, False, False, True, False]" and m = 2 and ?b4.0 = "[]"]
    by (simp add: facts)
  have fails: "fst (Next short_iter) = False \<and> \<not> it_finished (snd (Next short_iter))"
    by (simp add: w1) (simp add: short_iter_def)
  from Next_sticky_error [where it = short_iter and e = UnexpectedEnd] fails
  have latched: "Err (snd (Next short_iter)) = Some UnexpectedEnd"
    by (cases "Err (snd (Next short_iter))") (auto intro: error.exhaust)
  with Next_sticky_error [where it = "snd (Next short_iter)" and e = UnexpectedEnd]
  have sticky: "Next (snd (Next short_iter)) = (False, snd (Next short_iter))"
    "Err (snd (Next (snd (Next short_iter)))) = Some UnexpectedEnd"
    "((\<lambda>i. snd (Next i)) ^^ 3) (snd (Next short_iter)) = snd (Next short_iter)"
    by blast+
  from new w1 w2 w3 w4 w5 w6 w7 w8 w9 w10 w11 fails latched sticky show ?thesis
    by (intro conjI) (simp_all only: simp_thms)
qed

section \<open>What a push appends\<close>

lemma Push_first_bits:
  "s_t s = 0 \<Longrightarrow> s_bw (Push t v s) = s_bw s @ bits_of (t - s_t0 s) 14 @ bits_of v 64"
  by (simp add: Push_def Let_def WriteBits_def bits_of_ucast)

lemma Push_subsequent_bits:
  assumes "s_t s \<noteq> 0"
  shows "\<exists>r. r \<noteq> [] \<and>
           s_bw (Push t v s) =
             s_bw s @
             (let dod = t - s_t s - s_tDelta s in
              if dod = 0 then [False]
              else if -63 \<le> sint dod \<and> sint dod \<le> 64 then [True, False] @ bits_of dod 7
              else if -255 \<le> sint dod \<and> sint dod \<le> 256 then [True, True, False] @ bits_of dod 9
              else if -2047 \<le> sint dod \<and> sint dod \<le> 2048 then
                [True, True, True, False] @ bits_of dod 12
              else [True, True, True, True] @ bits_of dod 32) @ r"
  using assms
  by (simp add: Push_def Let_def WriteBits_def WriteBit_def bits_of_scast prefix_bits)

lemma Push_appends: "\<exists>r. r \<noteq> [] \<and> s_bw (Push t v s) = s_bw s @ r"
proof (cases "s_t s = 0")
  case True
  have "bits_of (t - s_t0 s) 14 @ bits_of v 64 \<noteq> []"
    using length_bits_of [of v 64] by fastforce
  with Push_first_bits [OF True] show ?thesis
    by blast
next
  case False
  from Push_subsequent_bits [OF False] obtain r c where "r \<noteq> []" "s_bw (Push t v s) = s_bw s @ c @ r"
    by blast
  then show ?thesis
    by (intro exI [of _ "c @ r"]) simp
qed

lemma finished_Push: "s_finished (Push t v s) = s_finished s"
  by (simp add: Push_def Let_def)

lemma Push_ignores_finished:
  "Push t v s = (Push t v (s\<lparr>s_finished := False\<rparr>))\<lparr>s_finished := s_finished s\<rparr>"
  by (simp add: Push_def Let_def)

lemma Push_fields:
  "s_t (Push t v s) = t" "s_val (Push t v s) = v"
  "s_tDelta (Push t v s) = (if s_t s = 0 then t - s_t0 s else t - s_t s)"
  "s_t0 (Push t v s) = s_t0 s"
  by (simp_all add: Push_def Let_def)

lemma Push_subsequent_record:
  assumes "s_t s \<noteq> 0"
  shows "s_bw (Push t v s) =
           s_bw s @
           (let dod = t - s_t s - s_tDelta s in
            if dod = 0 then [False]
            else if -63 \<le> sint dod \<and> sint dod \<le> 64 then [True, False] @ bits_of dod 7
            else if -255 \<le> sint dod \<and> sint dod \<le> 256 then [True, True, False] @ bits_of dod 9
            else if -2047 \<le> sint dod \<and> sint dod \<le> 2048 then
              [True, True, True, False] @ bits_of dod 12
            else [True, True, True, True] @ bits_of dod 32) @
           (let x = v XOR s_val s in
            if x = 0 then [False]
            else if s_leading s \<noteq> NOT 0 \<and> s_leading s \<le> Clz x \<and> s_trailing s \<le> Ctz x then
              [True, False] @
              bits_of (drop_bit (unat (s_trailing s)) x) (nat (sint (64 - s_leading s - s_trailing s)))
            else
              [True, True] @ bits_of (Clz x) 5 @ bits_of (64 - Clz x - Ctz x) 6 @
              bits_of (drop_bit (unat (Ctz x)) x) (nat (sint (64 - Clz x - Ctz x))))"
  using assms
  by (simp add: Push_def Let_def WriteBits_def WriteBit_def bits_of_scast prefix_bits)

lemma Push_New_fields:
  "s_t (Push t1 v1 (New t0)) = t1" "s_t0 (Push t1 v1 (New t0)) = t0"
  "s_tDelta (Push t1 v1 (New t0)) = t1 - t0"
  by (simp_all add: Push_def New_def Let_def)

text \<open>
  The tiers of the delta-of-delta. On a push that the encoder does not take for the first
  (\<open>s_t s \<noteq> 0\<close>) the delta-of-delta \<open>dod\<close>, the signed 32-bit difference of the new delta
  and the previous one, is written with the prefix of the first tier that holds it: \<open>0\<close>
  alone for 0; \<open>10\<close> and the low 7 bits within -63..64; \<open>110\<close> and 9 bits within -255..256;
  \<open>1110\<close> and 12 bits within -2047..2048; \<open>1111\<close> and 32 bits otherwise. The bits \<open>r\<close> that
  follow are the record of the value.
\<close>

theorem Push_tier_selection:
  assumes "s_t s \<noteq> 0" and "dod = t - s_t s - s_tDelta s"
  shows
    "(dod = 0 \<longrightarrow> (\<exists>r. r \<noteq> [] \<and> s_bw (Push t v s) = s_bw s @ [False] @ r)) \<and>
     (dod \<noteq> 0 \<and> -63 \<le> sint dod \<and> sint dod \<le> 64 \<longrightarrow>
        (\<exists>r. r \<noteq> [] \<and> s_bw (Push t v s) = s_bw s @ [True, False] @ bits_of dod 7 @ r)) \<and>
     (\<not> (-63 \<le> sint dod \<and> sint dod \<le> 64) \<and> -255 \<le> sint dod \<and> sint dod \<le> 256 \<longrightarrow>
        (\<exists>r. r \<noteq> [] \<and> s_bw (Push t v s) = s_bw s @ [True, True, False] @ bits_of dod 9 @ r)) \<and>
     (\<not> (-255 \<le> sint dod \<and> sint dod \<le> 256) \<and> -2047 \<le> sint dod \<and> sint dod \<le> 2048 \<longrightarrow>
        (\<exists>r. r \<noteq> [] \<and>
           s_bw (Push t v s) = s_bw s @ [True, True, True, False] @ bits_of dod 12 @ r)) \<and>
     (\<not> (-2047 \<le> sint dod \<and> sint dod \<le> 2048) \<longrightarrow>
        (\<exists>r. r \<noteq> [] \<and>
           s_bw (Push t v s) = s_bw s @ [True, True, True, True] @ bits_of dod 32 @ r))"
  using Push_subsequent_bits [OF assms(1), of t v] unfolding assms(2) Let_def
  by (auto split: if_splits)

text \<open>One push for each tier, on the encoder \<open>enc1\<close>.\<close>

theorem Push_tier_selection_witness:
  "s_t enc1 \<noteq> 0 \<and>
   (\<exists>r. r \<noteq> [] \<and> s_bw (Push 20 7 enc1) = s_bw enc1 @ [False] @ r) \<and>
   (\<exists>r. r \<noteq> [] \<and> s_bw (Push 22 7 enc1) = s_bw enc1 @ [True, False] @ bits_of (2 :: 32 word) 7 @ r) \<and>
   (\<exists>r. r \<noteq> [] \<and>
      s_bw (Push 120 7 enc1) = s_bw enc1 @ [True, True, False] @ bits_of (100 :: 32 word) 9 @ r) \<and>
   (\<exists>r. r \<noteq> [] \<and>
      s_bw (Push 1020 7 enc1) =
        s_bw enc1 @ [True, True, True, False] @ bits_of (1000 :: 32 word) 12 @ r) \<and>
   (\<exists>r. r \<noteq> [] \<and>
      s_bw (Push 5020 7 enc1) =
        s_bw enc1 @ [True, True, True, True] @ bits_of (5000 :: 32 word) 32 @ r)"
proof -
  have st: "s_t enc1 \<noteq> 0"
    by code_simp
  have d: "20 - s_t enc1 - s_tDelta enc1 = 0" "22 - s_t enc1 - s_tDelta enc1 = 2"
    "120 - s_t enc1 - s_tDelta enc1 = 100" "1020 - s_t enc1 - s_tDelta enc1 = 1000"
    "5020 - s_t enc1 - s_tDelta enc1 = 5000"
    by code_simp+
  note sel = Push_tier_selection [OF st refl, of _ 7, unfolded d]
  from sel [of 20, unfolded d] sel [of 22, unfolded d] sel [of 120, unfolded d]
    sel [of 1020, unfolded d] sel [of 5020, unfolded d] st
  show ?thesis
    by simp
qed

text \<open>
  C3, as the code has it. On a finished encoder a further \<^verbatim>\<open>Finish\<close> changes nothing, neither
  the state nor the bytes. \<^verbatim>\<open>Push\<close> does not look at the flag: the encoder stays finished
  and is otherwise what the same push makes of the encoder with the flag cleared. So the
  push sets the timestamp, the value and the delta, and appends the record of the sample
  after the end-of-stream marker: a first-sample record when \<open>s_t\<close> is 0, else the prefix
  code of the delta-of-delta followed by the record of the value.
\<close>

theorem finished_Series:
  "s_finished s \<Longrightarrow>
     Finish s = s \<and> Bytes (Finish s) = Bytes s \<and> s_finished (Push t v s) \<and>
     (\<exists>r. r \<noteq> [] \<and> s_bw (Push t v s) = s_bw s @ r) \<and>
     (Push t v (s\<lparr>s_finished := False\<rparr>))\<lparr>s_finished := True\<rparr> = Push t v s \<and>
     s_t (Push t v s) = t \<and> s_val (Push t v s) = v \<and>
     s_tDelta (Push t v s) = (if s_t s = 0 then t - s_t0 s else t - s_t s) \<and>
     (s_t s = 0 \<longrightarrow> s_bw (Push t v s) = s_bw s @ bits_of (t - s_t0 s) 14 @ bits_of v 64) \<and>
     (s_t s \<noteq> 0 \<longrightarrow>
        s_bw (Push t v s) =
           s_bw s @
           (let dod = t - s_t s - s_tDelta s in
            if dod = 0 then [False]
            else if -63 \<le> sint dod \<and> sint dod \<le> 64 then [True, False] @ bits_of dod 7
            else if -255 \<le> sint dod \<and> sint dod \<le> 256 then [True, True, False] @ bits_of dod 9
            else if -2047 \<le> sint dod \<and> sint dod \<le> 2048 then
              [True, True, True, False] @ bits_of dod 12
            else [True, True, True, True] @ bits_of dod 32) @
           (let x = v XOR s_val s in
            if x = 0 then [False]
            else if s_leading s \<noteq> NOT 0 \<and> s_leading s \<le> Clz x \<and> s_trailing s \<le> Ctz x then
              [True, False] @
              bits_of (drop_bit (unat (s_trailing s)) x) (nat (sint (64 - s_leading s - s_trailing s)))
            else
              [True, True] @ bits_of (Clz x) 5 @ bits_of (64 - Clz x - Ctz x) 6 @
              bits_of (drop_bit (unat (Ctz x)) x) (nat (sint (64 - Clz x - Ctz x)))))"
proof -
  assume fin: "s_finished s"
  have "(Push t v (s\<lparr>s_finished := False\<rparr>))\<lparr>s_finished := True\<rparr> = Push t v s"
    using Push_ignores_finished [of t v s] fin by simp
  with fin Push_appends [of t v s] Push_first_bits [of s t v] Push_subsequent_record [of s t v]
  show ?thesis
    by (simp add: Finish_finished finished_Push Push_fields)
qed

text \<open>
  The hypotheses of C3 hold of \<open>Finish (New 0)\<close>, where \<open>s_t\<close> is 0, and of \<open>Finish enc1\<close>,
  where it is not.
\<close>

theorem finished_Series_witness:
  "s_finished (Finish (New 0)) \<and> s_t (Finish (New 0)) = 0 \<and>
   Finish (Finish (New 0)) = Finish (New 0) \<and>
   s_finished (Push 1 7 (Finish (New 0))) \<and>
   (Push 1 7 ((Finish (New 0))\<lparr>s_finished := False\<rparr>))\<lparr>s_finished := True\<rparr> =
     Push 1 7 (Finish (New 0)) \<and>
   s_t (Push 1 7 (Finish (New 0))) = 1 \<and> s_val (Push 1 7 (Finish (New 0))) = 7 \<and>
   s_bw (Push 1 7 (Finish (New 0))) =
     s_bw (Finish (New 0)) @ bits_of (1 :: 32 word) 14 @ bits_of (7 :: 64 word) 64 \<and>
   s_finished (Finish enc1) \<and> s_t (Finish enc1) \<noteq> 0 \<and>
   s_tDelta (Push 22 0x3FF0000000000000 (Finish enc1)) = 12 \<and>
   s_bw (Push 22 0x3FF0000000000000 (Finish enc1)) =
     s_bw (Finish enc1) @ ([True, False] @ bits_of (2 :: 32 word) 7) @ [False]"
proof -
  have a: "s_finished (Finish (New 0))" "s_t (Finish (New 0)) = 0" "s_t0 (Finish (New 0)) = 0"
    by (simp_all add: Finish_def New_def)
  have b: "s_finished (Finish enc1)" "s_t (Finish enc1) \<noteq> 0" "s_t (Finish enc1) = 10"
    "s_tDelta (Finish enc1) = 10" "s_val (Finish enc1) = 0x3FF0000000000000"
    by (simp_all add: Finish_def enc1_def Push_fields New_def)
  from finished_Series [OF a(1), of 1 7] a
  have c: "Finish (Finish (New 0)) = Finish (New 0)"
    "s_finished (Push 1 7 (Finish (New 0)))"
    "(Push 1 7 ((Finish (New 0))\<lparr>s_finished := False\<rparr>))\<lparr>s_finished := True\<rparr> =
       Push 1 7 (Finish (New 0))"
    "s_t (Push 1 7 (Finish (New 0))) = 1" "s_val (Push 1 7 (Finish (New 0))) = 7"
    "s_bw (Push 1 7 (Finish (New 0))) =
       s_bw (Finish (New 0)) @ bits_of (1 :: 32 word) 14 @ bits_of (7 :: 64 word) 64"
    by simp_all
  from finished_Series [OF b(1), of 22 "0x3FF0000000000000"] b
  have d: "s_tDelta (Push 22 0x3FF0000000000000 (Finish enc1)) = 12"
    "s_bw (Push 22 0x3FF0000000000000 (Finish enc1)) =
       s_bw (Finish enc1) @ ([True, False] @ bits_of (2 :: 32 word) 7) @ [False]"
    by simp_all
  from a b c d show ?thesis
    by (intro conjI) (simp_all only: simp_thms)
qed

text \<open>
  C3 as stated fails: a push on the finished encoder \<open>Finish (New 0)\<close> changes the state and
  adds nine bytes to the buffer.
\<close>

theorem Push_after_Finish_counterexample:
  "s_finished (Finish (New 0)) \<and>
   Push 1 0 (Finish (New 0)) \<noteq> Finish (New 0) \<and>
   Bytes (Finish (New 0)) = [0, 0, 0, 0, 255, 255, 255, 255, 240] \<and>
   Bytes (Push 1 0 (Finish (New 0))) =
     [0, 0, 0, 0, 255, 255, 255, 255, 240, 0, 4, 0, 0, 0, 0, 0, 0, 0]"
  by code_simp

text \<open>
  The test for the first sample. \<^verbatim>\<open>Push\<close> takes a push for the first one exactly when \<open>s_t\<close>
  is 0. After a first push with timestamp 0 on a fresh encoder, whatever \<open>t0\<close> and the
  values, the second push is written as a first-sample record again: the low 14 bits of
  \<open>t - t0\<close> and the 64 raw bits of the value. After a first push with another timestamp the
  second push is written as the prefix code of the delta-of-delta and then the record \<open>r\<close>
  of the value.
\<close>

theorem Push_first_sample_sentinel:
  "(s_t s = 0 \<longrightarrow> s_bw (Push t v s) = s_bw s @ bits_of (t - s_t0 s) 14 @ bits_of v 64) \<and>
   s_t (Push 0 v1 (New t0)) = 0 \<and>
   s_bw (Push t v (Push 0 v1 (New t0))) =
     s_bw (Push 0 v1 (New t0)) @ bits_of (t - t0) 14 @ bits_of v 64 \<and>
   (t1 \<noteq> 0 \<longrightarrow>
      (\<exists>r. r \<noteq> [] \<and>
         s_bw (Push t v (Push t1 v1 (New t0))) =
           s_bw (Push t1 v1 (New t0)) @
           (let dod = t - t1 - (t1 - t0) in
            if dod = 0 then [False]
            else if -63 \<le> sint dod \<and> sint dod \<le> 64 then [True, False] @ bits_of dod 7
            else if -255 \<le> sint dod \<and> sint dod \<le> 256 then [True, True, False] @ bits_of dod 9
            else if -2047 \<le> sint dod \<and> sint dod \<le> 2048 then
              [True, True, True, False] @ bits_of dod 12
            else [True, True, True, True] @ bits_of dod 32) @ r))"
proof (intro conjI impI)
  assume "s_t s = 0"
  then show "s_bw (Push t v s) = s_bw s @ bits_of (t - s_t0 s) 14 @ bits_of v 64"
    by (rule Push_first_bits)
next
  show "s_t (Push 0 v1 (New t0)) = 0"
    by (simp add: Push_New_fields)
next
  show "s_bw (Push t v (Push 0 v1 (New t0))) =
      s_bw (Push 0 v1 (New t0)) @ bits_of (t - t0) 14 @ bits_of v 64"
    using Push_first_bits [of "Push 0 v1 (New t0)" t v] by (simp add: Push_New_fields)
next
  assume "t1 \<noteq> 0"
  then have nz: "s_t (Push t1 v1 (New t0)) \<noteq> 0"
    by (simp add: Push_New_fields)
  from Push_subsequent_bits [OF nz, of t v]
  show "\<exists>r. r \<noteq> [] \<and>
         s_bw (Push t v (Push t1 v1 (New t0))) =
           s_bw (Push t1 v1 (New t0)) @
           (let dod = t - t1 - (t1 - t0) in
            if dod = 0 then [False]
            else if -63 \<le> sint dod \<and> sint dod \<le> 64 then [True, False] @ bits_of dod 7
            else if -255 \<le> sint dod \<and> sint dod \<le> 256 then [True, True, False] @ bits_of dod 9
            else if -2047 \<le> sint dod \<and> sint dod \<le> 2048 then
              [True, True, True, False] @ bits_of dod 12
            else [True, True, True, True] @ bits_of dod 32) @ r"
    by (simp only: Push_New_fields)
qed

text \<open>The two hypotheses: a state with \<open>s_t = 0\<close>, and a first timestamp of 9.\<close>

theorem Push_first_sample_sentinel_witness:
  "s_t (New 0) = 0 \<and> (9 :: 32 word) \<noteq> 0 \<and>
   s_bw (Push 5 7 (New 0)) = s_bw (New 0) @ bits_of (5 :: 32 word) 14 @ bits_of (7 :: 64 word) 64 \<and>
   s_t (Push 0 3 (New 0)) = 0 \<and>
   s_bw (Push 5 7 (Push 0 3 (New 0))) =
     s_bw (Push 0 3 (New 0)) @ bits_of (5 :: 32 word) 14 @ bits_of (7 :: 64 word) 64 \<and>
   (\<exists>r. r \<noteq> [] \<and>
      s_bw (Push 20 7 (Push 9 3 (New 0))) =
        s_bw (Push 9 3 (New 0)) @ ([True, False] @ bits_of (2 :: 32 word) 7) @ r)"
proof -
  have fresh: "s_t (New 0) = 0" "s_t0 (New 0) = 0"
    by (simp_all add: New_def)
  have nz: "(9 :: 32 word) \<noteq> 0"
    by simp
  from Push_first_sample_sentinel [of "New 0" 5 7 3 0 9] fresh nz
  have a: "s_bw (Push 5 7 (New 0)) = s_bw (New 0) @ bits_of (5 :: 32 word) 14 @ bits_of (7 :: 64 word) 64"
    and b: "s_t (Push 0 3 (New 0)) = 0"
    and c: "s_bw (Push 5 7 (Push 0 3 (New 0))) =
     s_bw (Push 0 3 (New 0)) @ bits_of (5 :: 32 word) 14 @ bits_of (7 :: 64 word) 64"
    by simp_all
  from Push_first_sample_sentinel [of "New 0" 20 7 3 0 9] nz
  have d: "\<exists>r. r \<noteq> [] \<and>
      s_bw (Push 20 7 (Push 9 3 (New 0))) =
        s_bw (Push 9 3 (New 0)) @ ([True, False] @ bits_of (2 :: 32 word) 7) @ r"
    by simp
  from fresh nz a b c d show ?thesis
    by blast
qed

text \<open>
  C5 on the code: after the push of \<open>(0, 1.0)\<close> on \<open>New 0\<close> the push of \<open>(5, 2.0)\<close> appends
  the 78 bits of a first-sample record. A subsequent-sample record would be the prefix \<open>10\<close>
  with the delta-of-delta 5 in 7 bits, then the bits \<open>11\<close> and the new window of the XOR
  \<open>0x7FF0000000000000\<close>: 1 leading zero, 11 significant bits, all ones.
\<close>

theorem second_push_after_zero_first_record:
  "s_bw (Push 5 0x4000000000000000 (Push 0 0x3FF0000000000000 (New 0))) =
     s_bw (Push 0 0x3FF0000000000000 (New 0)) @
     bits_of (5 :: 32 word) 14 @ bits_of (0x4000000000000000 :: 64 word) 64 \<and>
   s_bw (Push 5 0x4000000000000000 (Push 0 0x3FF0000000000000 (New 0))) \<noteq>
     s_bw (Push 0 0x3FF0000000000000 (New 0)) @
     [True, False] @ bits_of (5 :: 32 word) 7 @ [True, True] @ bits_of (1 :: 64 word) 5 @
     bits_of (11 :: 64 word) 6 @ replicate 11 True"
  by code_simp

section \<open>Signed payloads of the delta-of-delta\<close>

lemma Next_dod_tier:
  assumes "(sz, pre) \<in> {(7, [True, False]), (9, [True, True, False]), (12, [True, True, True, False])}"
  shows "Next_dod (it\<lparr>it_br := pre @ bits_of (u :: 64 word) sz @ rest\<rparr>) =
           Inr (ucast (if 2 ^ (sz - 1) < take_bit sz u then take_bit sz u - 2 ^ sz else take_bit sz u),
                it\<lparr>it_br := rest\<rparr>)"
proof -
  have rd: "ReadBits (int sz) (bits_of u sz @ rest) = Inr (take_bit sz u, rest)"
    using ReadBits_bits_of [of "int sz" u rest] by simp
  from assms consider "sz = 7" "pre = [True, False]" | "sz = 9" "pre = [True, True, False]"
    | "sz = 12" "pre = [True, True, True, False]"
    by auto
  then show ?thesis
  proof cases
    case 1
    with rd show ?thesis
      by (simp add: Next_dod_def read_prefix_10 Let_def)
  next
    case 2
    with rd show ?thesis
      by (simp add: Next_dod_def read_prefix_110 Let_def)
  next
    case 3
    with rd show ?thesis
      by (simp add: Next_dod_def read_prefix_1110 Let_def)
  qed
qed

lemma Next_value_unchanged:
  "Next_value dod (it\<lparr>it_br := False # rest\<rparr>) =
     (True, it\<lparr>it_tDelta := it_tDelta it + dod, it_t := it_t it + (it_tDelta it + dod),
               it_br := rest\<rparr>)"
  by (simp add: Next_value_def Let_def)

lemma Next_tier:
  assumes "it_err it = None" "\<not> it_finished it" "it_t it \<noteq> 0"
    and "(sz, pre) \<in> {(7, [True, False]), (9, [True, True, False]), (12, [True, True, True, False])}"
  shows "Next (it\<lparr>it_br := pre @ bits_of (u :: 64 word) sz @ False # rest\<rparr>) =
           (let p = take_bit sz u;
                dod = ucast (if 2 ^ (sz - 1) < p then p - 2 ^ sz else p)
            in (True, it\<lparr>it_tDelta := it_tDelta it + dod, it_t := it_t it + (it_tDelta it + dod),
                         it_br := rest\<rparr>))"
  using assms(1-3)
  by (simp add: Next_subsequent Next_dod_tier [OF assms(4)] Next_value_unchanged Let_def)

lemma Push_dod_64:
  "s_t s \<noteq> 0 \<Longrightarrow>
     s_bw (Push (s_t s + (s_tDelta s + 64)) (s_val s) s) =
       s_bw s @ [True, False] @ [True, False, False, False, False, False, False] @ [False]"
  by (simp add: Push_def Let_def WriteBits_def WriteBit_def bits_of_scast prefix_bits payload_bits)

lemma Push_dod_minus_64:
  "s_t s \<noteq> 0 \<Longrightarrow>
     s_bw (Push (s_t s + (s_tDelta s - 64)) (s_val s) s) =
       s_bw s @ [True, True, False] @
       [True, True, True, False, False, False, False, False, False] @ [False]"
  by (simp add: Push_def Let_def WriteBits_def WriteBit_def bits_of_scast prefix_bits payload_bits)

lemma Next_64:
  assumes "it_err it = None" "\<not> it_finished it" "it_t it \<noteq> 0"
  shows "Next (it\<lparr>it_br := [True, False] @ [True, False, False, False, False, False, False] @
                   False # rest\<rparr>) =
     (True, it\<lparr>it_tDelta := it_tDelta it + 64, it_t := it_t it + (it_tDelta it + 64),
               it_br := rest\<rparr>)"
  using Next_tier [OF assms, of 7 "[True, False]" 64 rest]
  by (simp add: payload_bits Let_def)

lemma Next_minus_64:
  assumes "it_err it = None" "\<not> it_finished it" "it_t it \<noteq> 0"
  shows "Next (it\<lparr>it_br := [True, True, False] @
                   [True, True, True, False, False, False, False, False, False] @ False # rest\<rparr>) =
     (True, it\<lparr>it_tDelta := it_tDelta it - 64, it_t := it_t it + (it_tDelta it - 64),
               it_br := rest\<rparr>)"
  using Next_tier [OF assms, of 9 "[True, True, False]" 448 rest]
  by (simp add: payload_bits Let_def)

text \<open>
  C8. For an iterator past its first sample and the payload widths 7, 9 and 12, \<^verbatim>\<open>Next\<close>
  takes the payload \<open>p\<close> of \<open>sz\<close> bits as \<open>p - 2 ^ sz\<close> only when \<open>p\<close> is strictly greater
  than \<open>2 ^ (sz - 1)\<close>, and as \<open>p\<close> otherwise. So a delta-of-delta of 64 is written in the
  7-bit tier as \<open>1000000\<close> and read back as +64, and one of -64 is written in the 9-bit
  tier as \<open>111000000\<close> and read back as -64. (The pushes repeat the previous value, whose
  record is the single bit \<open>0\<close>.)
\<close>

theorem signed_payload_round_trip:
  assumes "it_err it = None" and "\<not> it_finished it" and "it_t it \<noteq> 0" and "s_t s \<noteq> 0"
  shows
    "(\<forall>(sz, pre) \<in> {(7, [True, False]), (9, [True, True, False]), (12, [True, True, True, False])}.
        \<forall>(u :: 64 word) rest.
          Next (it\<lparr>it_br := pre @ bits_of u sz @ False # rest\<rparr>) =
            (let p = take_bit sz u;
                 dod = ucast (if 2 ^ (sz - 1) < p then p - 2 ^ sz else p)
             in (True, it\<lparr>it_tDelta := it_tDelta it + dod,
                          it_t := it_t it + (it_tDelta it + dod), it_br := rest\<rparr>))) \<and>
     s_bw (Push (s_t s + (s_tDelta s + 64)) (s_val s) s) =
       s_bw s @ [True, False] @ [True, False, False, False, False, False, False] @ [False] \<and>
     (\<forall>rest.
        Next (it\<lparr>it_br := [True, False] @ [True, False, False, False, False, False, False] @
                      False # rest\<rparr>) =
          (True, it\<lparr>it_tDelta := it_tDelta it + 64, it_t := it_t it + (it_tDelta it + 64),
                    it_br := rest\<rparr>)) \<and>
     s_bw (Push (s_t s + (s_tDelta s - 64)) (s_val s) s) =
       s_bw s @ [True, True, False] @
       [True, True, True, False, False, False, False, False, False] @ [False] \<and>
     (\<forall>rest.
        Next (it\<lparr>it_br := [True, True, False] @
                      [True, True, True, False, False, False, False, False, False] @
                      False # rest\<rparr>) =
          (True, it\<lparr>it_tDelta := it_tDelta it - 64, it_t := it_t it + (it_tDelta it - 64),
                    it_br := rest\<rparr>))"
proof -
  have "Next (it\<lparr>it_br := pre @ bits_of u sz @ False # rest\<rparr>) =
            (let p = take_bit sz u;
                 dod = ucast (if 2 ^ (sz - 1) < p then p - 2 ^ sz else p)
             in (True, it\<lparr>it_tDelta := it_tDelta it + dod,
                          it_t := it_t it + (it_tDelta it + dod), it_br := rest\<rparr>))"
    if "(sz, pre) \<in> {(7, [True, False]), (9, [True, True, False]), (12, [True, True, True, False])}"
    for sz pre and u :: "64 word" and rest
    using that by (rule Next_tier [OF assms(1-3)])
  then have tiers:
    "\<forall>(sz, pre) \<in> {(7, [True, False]), (9, [True, True, False]), (12, [True, True, True, False])}.
        \<forall>(u :: 64 word) rest.
          Next (it\<lparr>it_br := pre @ bits_of u sz @ False # rest\<rparr>) =
            (let p = take_bit sz u;
                 dod = ucast (if 2 ^ (sz - 1) < p then p - 2 ^ sz else p)
             in (True, it\<lparr>it_tDelta := it_tDelta it + dod,
                          it_t := it_t it + (it_tDelta it + dod), it_br := rest\<rparr>))"
    by blast
  from tiers Push_dod_64 [OF assms(4)] Push_dod_minus_64 [OF assms(4)]
    Next_64 [OF assms(1-3)] Next_minus_64 [OF assms(1-3)]
  show ?thesis
    by blast
qed

text \<open>The hypotheses of C8 hold of \<open>sub_iter\<close> and \<open>enc1\<close>; the payload 65 reads as -63.\<close>

theorem signed_payload_round_trip_witness:
  "it_err sub_iter = None \<and> \<not> it_finished sub_iter \<and> it_t sub_iter \<noteq> 0 \<and> s_t enc1 \<noteq> 0 \<and>
   Next (sub_iter\<lparr>it_br := [True, False] @ bits_of (65 :: 64 word) 7 @ [False]\<rparr>) =
     (True, sub_iter\<lparr>it_tDelta := it_tDelta sub_iter - 63,
                     it_t := it_t sub_iter + (it_tDelta sub_iter - 63), it_br := []\<rparr>) \<and>
   s_bw (Push (s_t enc1 + (s_tDelta enc1 + 64)) (s_val enc1) enc1) =
     s_bw enc1 @ [True, False] @ [True, False, False, False, False, False, False] @ [False] \<and>
   Next (sub_iter\<lparr>it_br := [True, False] @ [True, False, False, False, False, False, False] @
                        [False]\<rparr>) =
     (True, sub_iter\<lparr>it_tDelta := it_tDelta sub_iter + 64,
                     it_t := it_t sub_iter + (it_tDelta sub_iter + 64), it_br := []\<rparr>) \<and>
   s_bw (Push (s_t enc1 + (s_tDelta enc1 - 64)) (s_val enc1) enc1) =
     s_bw enc1 @ [True, True, False] @
     [True, True, True, False, False, False, False, False, False] @ [False] \<and>
   Next (sub_iter\<lparr>it_br := [True, True, False] @
                        [True, True, True, False, False, False, False, False, False] @
                        [False]\<rparr>) =
     (True, sub_iter\<lparr>it_tDelta := it_tDelta sub_iter - 64,
                     it_t := it_t sub_iter + (it_tDelta sub_iter - 64), it_br := []\<rparr>)"
proof -
  have h: "it_err sub_iter = None" "\<not> it_finished sub_iter" "it_t sub_iter \<noteq> 0"
    by (simp_all add: sub_iter_def)
  have e: "s_t enc1 \<noteq> 0"
    by code_simp
  note rt = signed_payload_round_trip [OF h e]
  from rt have "\<forall>(u :: 64 word) rest.
          Next (sub_iter\<lparr>it_br := [True, False] @ bits_of u 7 @ False # rest\<rparr>) =
            (let p = take_bit 7 u;
                 dod = ucast (if 2 ^ (7 - 1) < p then p - 2 ^ 7 else p)
             in (True, sub_iter\<lparr>it_tDelta := it_tDelta sub_iter + dod,
                          it_t := it_t sub_iter + (it_tDelta sub_iter + dod), it_br := rest\<rparr>))"
    by fast
  from this [THEN spec, of 65, THEN spec, of "[]"]
  have "Next (sub_iter\<lparr>it_br := [True, False] @ bits_of (65 :: 64 word) 7 @ [False]\<rparr>) =
     (True, sub_iter\<lparr>it_tDelta := it_tDelta sub_iter - 63,
                     it_t := it_t sub_iter + (it_tDelta sub_iter - 63), it_br := []\<rparr>)"
    by (simp add: Let_def)
  with rt h e show ?thesis
    by blast
qed

section \<open>Blocks that do not decode to their samples\<close>

text \<open>
  C10. The block of \<^verbatim>\<open>New(0xFFFFFFFB); Push(0, 1.0); Finish()\<close>: the first \<^verbatim>\<open>Next\<close> yields
  the sample with \<open>t0 + tDelta\<close> wrapped to 0. What follows in the stream is the
  end-of-stream marker, which the delta-of-delta part of \<^verbatim>\<open>Next\<close> would recognise; but the
  iterator finds \<open>it_t = 0\<close> and reads a first-sample record instead: 14 bits as a delta
  (here 0x3FFF), then 64 bits of value, which are not there.
\<close>

theorem decoder_timestamp_zero_reset:
  "Bytes (Finish (Push 0 0x3FF0000000000000 (New 0xFFFFFFFB))) =
     [255, 255, 255, 251, 0, 20, 255, 192, 0, 0, 0, 0, 0, 3, 255, 255, 255, 255, 192] \<and>
   (case NewIterator (Bytes (Finish (Push 0 0x3FF0000000000000 (New 0xFFFFFFFB)))) of
      Inl e \<Rightarrow> False
    | Inr it \<Rightarrow>
        (let (ok1, it1) = Next it; (ok2, it2) = Next it1
         in s_bw (Finish (Push 0 0x3FF0000000000000 (New 0xFFFFFFFB))) =
              s_bw (Push 0 0x3FF0000000000000 (New 0xFFFFFFFB)) @
              [True, True, True, True] @ replicate 32 True @ [False] @ replicate 5 False \<and>
            ok1 \<and> it_tDelta it1 = 5 \<and> Values it1 = (0, 0x3FF0000000000000) \<and>
            it_br it1 =
              [True, True, True, True] @ replicate 32 True @ [False] @ replicate 5 False \<and>
            Next_dod it1 =
              Inl (False, it1\<lparr>it_br := replicate 6 False, it_finished := True\<rparr>) \<and>
            \<not> ok2 \<and> it_tDelta it2 = 0x3FFF \<and> it_t it2 = 0xFFFFFFFB + 0x3FFF \<and>
            \<not> it_finished it2 \<and> Err it2 = Some UnexpectedEnd))"
  by code_simp

text \<open>On these bytes each of the calls of \<^verbatim>\<open>Next\<close> above passes the guard of \<^verbatim>\<open>Next\<close>.\<close>

theorem decoder_timestamp_zero_reset_witness:
  "Bytes (Finish (Push 0 0x3FF0000000000000 (New 0xFFFFFFFB))) =
     [255, 255, 255, 251, 0, 20, 255, 192, 0, 0, 0, 0, 0, 3, 255, 255, 255, 255, 192] \<and>
   (case NewIterator [255, 255, 255, 251, 0, 20, 255, 192, 0, 0, 0, 0, 0, 3, 255, 255, 255, 255, 192] of
      Inl e \<Rightarrow> False
    | Inr it \<Rightarrow>
        it_err it = None \<and> \<not> it_finished it \<and>
        it_err (snd (Next it)) = None \<and> \<not> it_finished (snd (Next it)))"
proof -
  have guards:
    "case NewIterator [255, 255, 255, 251, 0, 20, 255, 192, 0, 0, 0, 0, 0, 3, 255, 255, 255, 255, 192] of
       Inl e \<Rightarrow> False
     | Inr it \<Rightarrow>
        it_err it = None \<and> \<not> it_finished it \<and>
        it_err (snd (Next it)) = None \<and> \<not> it_finished (snd (Next it))"
    by code_simp
  from decoder_timestamp_zero_reset [THEN conjunct1] guards show ?thesis
    by (rule conjI)
qed

text \<open>
  C2 on the code: the block of \<^verbatim>\<open>New(1000); Finish()\<close> is nine bytes. The first \<^verbatim>\<open>Next\<close>
  returns false, but by a failed read: with \<open>it_t = 0\<close> it takes the marker for a
  first-sample record, and the error stays latched.
\<close>

theorem empty_block_latches_error:
  "Bytes (Finish (New 1000)) =
     [0, 0, 3, 232, 255, 255, 255, 255, 240] \<and>
   (case NewIterator (Bytes (Finish (New 1000))) of
      Inl e \<Rightarrow> False
    | Inr it \<Rightarrow>
        fst (Next it) = False \<and> Err (snd (Next it)) = Some UnexpectedEnd \<and>
        \<not> it_finished (snd (Next it)) \<and> it_tDelta (snd (Next it)) = 0x3FFF)"
  by code_simp

text \<open>On these bytes each of the calls of \<^verbatim>\<open>Next\<close> above passes the guard of \<^verbatim>\<open>Next\<close>.\<close>

theorem empty_block_latches_error_witness:
  "Bytes (Finish (New 1000)) =
     [0, 0, 3, 232, 255, 255, 255, 255, 240] \<and>
   (case NewIterator [0, 0, 3, 232, 255, 255, 255, 255, 240] of
      Inl e \<Rightarrow> False
    | Inr it \<Rightarrow>
        it_err it = None \<and> \<not> it_finished it)"
proof -
  have guards:
    "case NewIterator [0, 0, 3, 232, 255, 255, 255, 255, 240] of
       Inl e \<Rightarrow> False
     | Inr it \<Rightarrow>
        it_err it = None \<and> \<not> it_finished it"
    by code_simp
  from empty_block_latches_error [THEN conjunct1] guards show ?thesis
    by (rule conjI)
qed

text \<open>
  C4 on the code: the values 1.0 and \<open>0x3FF0000080000000\<close> differ by an XOR with 32 leading
  zeros. \<^verbatim>\<open>Push\<close> writes the low five bits of 32 in the leading field, \<open>00000\<close>, with one
  significant bit; \<^verbatim>\<open>Next\<close> then takes 63 trailing zeros and yields \<open>0xBFF0000000000000\<close>.
\<close>

theorem leading_not_clamped:
  "Bytes (Finish (Push 2 0x3FF0000080000000 (Push 1 0x3FF0000000000000 (New 0)))) =
     [0, 0, 0, 0, 0, 4, 255, 192, 0, 0, 0, 0, 0, 1, 128, 31, 255, 255, 255, 255, 128] \<and>
   (case NewIterator (Bytes (Finish (Push 2 0x3FF0000080000000 (Push 1 0x3FF0000000000000 (New 0))))) of
      Inl e \<Rightarrow> False
    | Inr it \<Rightarrow>
        (let (ok1, it1) = Next it; (ok2, it2) = Next it1
         in Clz (0x3FF0000080000000 XOR 0x3FF0000000000000) = 32 \<and>
            s_bw (Push 2 0x3FF0000080000000 (Push 1 0x3FF0000000000000 (New 0))) =
              s_bw (Push 1 0x3FF0000000000000 (New 0)) @ [False] @ [True, True] @
              [False, False, False, False, False] @ [False, False, False, False, False, True] @
              [True] \<and>
            ok1 \<and> Values it1 = (1, 0x3FF0000000000000) \<and>
            ok2 \<and> Values it2 = (2, 0xBFF0000000000000) \<and>
            it_leading it2 = 0 \<and> it_trailing it2 = 63))"
  by code_simp

text \<open>On these bytes each of the calls of \<^verbatim>\<open>Next\<close> above passes the guard of \<^verbatim>\<open>Next\<close>.\<close>

theorem leading_not_clamped_witness:
  "Bytes (Finish (Push 2 0x3FF0000080000000 (Push 1 0x3FF0000000000000 (New 0)))) =
     [0, 0, 0, 0, 0, 4, 255, 192, 0, 0, 0, 0, 0, 1, 128, 31, 255, 255, 255, 255, 128] \<and>
   (case NewIterator [0, 0, 0, 0, 0, 4, 255, 192, 0, 0, 0, 0, 0, 1, 128, 31, 255, 255, 255, 255, 128] of
      Inl e \<Rightarrow> False
    | Inr it \<Rightarrow>
        it_err it = None \<and> \<not> it_finished it \<and>
        it_err (snd (Next it)) = None \<and> \<not> it_finished (snd (Next it)))"
proof -
  have guards:
    "case NewIterator [0, 0, 0, 0, 0, 4, 255, 192, 0, 0, 0, 0, 0, 1, 128, 31, 255, 255, 255, 255, 128] of
       Inl e \<Rightarrow> False
     | Inr it \<Rightarrow>
        it_err it = None \<and> \<not> it_finished it \<and>
        it_err (snd (Next it)) = None \<and> \<not> it_finished (snd (Next it))"
    by code_simp
  from leading_not_clamped [THEN conjunct1] guards show ?thesis
    by (rule conjI)
qed

text \<open>
  C1 on the code: the samples \<open>(1, 1.0)\<close> and \<open>(2, 0x3FF0000000000001)\<close> after \<^verbatim>\<open>New(0)\<close>
  satisfy the bounds on the timestamps. The XOR of the values has 63 leading zeros, the
  leading field holds 31, and the second sample decodes to another value.
\<close>

theorem round_trip_fails_small_xor:
  "Bytes (Finish (Push 2 0x3FF0000000000001 (Push 1 0x3FF0000000000000 (New 0)))) =
     [0, 0, 0, 0, 0, 4, 255, 192, 0, 0, 0, 0, 0, 1, 252, 31, 255, 255, 255, 255, 128] \<and>
   (case NewIterator (Bytes (Finish (Push 2 0x3FF0000000000001 (Push 1 0x3FF0000000000000 (New 0))))) of
      Inl e \<Rightarrow> False
    | Inr it \<Rightarrow>
        (let (ok1, it1) = Next it; (ok2, it2) = Next it1; (ok3, it3) = Next it2
         in ok1 \<and> Values it1 = (1, 0x3FF0000000000000) \<and>
            ok2 \<and> Values it2 = (2, 0x3FF0000100000000) \<and>
            \<not> ok3 \<and> it_finished it3 \<and> Err it3 = None))"
  by code_simp

text \<open>On these bytes each of the calls of \<^verbatim>\<open>Next\<close> above passes the guard of \<^verbatim>\<open>Next\<close>.\<close>

theorem round_trip_fails_small_xor_witness:
  "Bytes (Finish (Push 2 0x3FF0000000000001 (Push 1 0x3FF0000000000000 (New 0)))) =
     [0, 0, 0, 0, 0, 4, 255, 192, 0, 0, 0, 0, 0, 1, 252, 31, 255, 255, 255, 255, 128] \<and>
   (case NewIterator [0, 0, 0, 0, 0, 4, 255, 192, 0, 0, 0, 0, 0, 1, 252, 31, 255, 255, 255, 255, 128] of
      Inl e \<Rightarrow> False
    | Inr it \<Rightarrow>
        it_err it = None \<and> \<not> it_finished it \<and>
        it_err (snd (Next it)) = None \<and> \<not> it_finished (snd (Next it)) \<and>
        it_err (snd (Next (snd (Next it)))) = None \<and>
        \<not> it_finished (snd (Next (snd (Next it)))))"
proof -
  have guards:
    "case NewIterator [0, 0, 0, 0, 0, 4, 255, 192, 0, 0, 0, 0, 0, 1, 252, 31, 255, 255, 255, 255, 128] of
       Inl e \<Rightarrow> False
     | Inr it \<Rightarrow>
        it_err it = None \<and> \<not> it_finished it \<and>
        it_err (snd (Next it)) = None \<and> \<not> it_finished (snd (Next it)) \<and>
        it_err (snd (Next (snd (Next it)))) = None \<and>
        \<not> it_finished (snd (Next (snd (Next it))))"
    by code_simp
  from round_trip_fails_small_xor [THEN conjunct1] guards show ?thesis
    by (rule conjI)
qed

text \<open>
  What the repeated first-sample record costs: in \<^verbatim>\<open>New(0); Push(0, 1.0); Push(20000, 2.0);
  Finish()\<close> the second delta does not fit the 14 bits, and the block decodes, with no
  error, to the timestamps 0 and 3616.
\<close>

lemma zero_timestamp_loses_delta:
  "case NewIterator (Bytes (Finish (Push 20000 0x4000000000000000 (Push 0 0x3FF0000000000000 (New 0))))) of
     Inl e \<Rightarrow> False
   | Inr it \<Rightarrow>
       (let (ok1, it1) = Next it; (ok2, it2) = Next it1; (ok3, it3) = Next it2
        in ok1 \<and> Values it1 = (0, 0x3FF0000000000000) \<and>
           ok2 \<and> Values it2 = (3616, 0x4000000000000000) \<and>
           \<not> ok3 \<and> it_finished it3 \<and> Err it3 = None)"
  by code_simp

text \<open>
  C7 on the code: the encoder \<open>Push 0 1.0 (New 0)\<close> holds one sample, with timestamp 0 and
  delta 0. The push of \<open>(60, 1.0)\<close> is its second; the delta-of-delta is 60, in the tier
  -63..64. The claim has it written as \<open>10\<close>, the 7 bits of 60 and the value bit \<open>0\<close>; the
  code appends a first-sample record, 14 bits of 60 and the 64 raw bits of the value.
\<close>

theorem second_push_without_tier_prefix:
  "s_t (Push 0 0x3FF0000000000000 (New 0)) = 0 \<and>
   s_tDelta (Push 0 0x3FF0000000000000 (New 0)) = 0 \<and>
   sint ((60 :: 32 word) - s_t (Push 0 0x3FF0000000000000 (New 0)) -
         s_tDelta (Push 0 0x3FF0000000000000 (New 0))) = 60 \<and>
   s_bw (Push 60 0x3FF0000000000000 (Push 0 0x3FF0000000000000 (New 0))) =
     s_bw (Push 0 0x3FF0000000000000 (New 0)) @
     bits_of (60 :: 32 word) 14 @ bits_of (0x3FF0000000000000 :: 64 word) 64 \<and>
   s_bw (Push 60 0x3FF0000000000000 (Push 0 0x3FF0000000000000 (New 0))) \<noteq>
     s_bw (Push 0 0x3FF0000000000000 (New 0)) @
     [True, False] @ bits_of (60 :: 32 word) 7 @ [False]"
  by code_simp

end
